theory Spec2Isabelle
  imports Main "HOL-Library.Code_Target_Nat"
begin

section \<open>JavaScript values used by the SDK\<close>

text \<open>
  The SDK (\<^verbatim>\<open>src/index.ts\<close>, class \<^verbatim>\<open>IlcSdk\<close>) decodes two query parameters of a request and
  encodes a fragment's response data into headers.

  A JavaScript string is represented by the bytes of its UTF-8 encoding (a HOL \<open>string\<close>),
  a surrogate that stands alone by the three bytes the same scheme gives it. The bytes of
  a \<^verbatim>\<open>Buffer\<close> are a HOL \<open>string\<close> too. Where the runtime reads the code units of a string,
  or turns bytes into a string or a string into bytes, the model goes through the decoder
  \<open>utf8_decode\<close> below.
\<close>

datatype js_error =
    SyntaxError
  | TypeError

datatype json =
    JNull
  | JBool bool
  | JNumber string
  | JString string
  | JArray "json list"
  | JObject "(string \<times> json) list"

text \<open>
  A number is kept as its literal. The members of an object are kept in source order; a
  later member with the same name overrides an earlier one.
\<close>

definition object_get :: "(string \<times> json) list \<Rightarrow> string \<Rightarrow> json option" where
  "object_get members name = map_of (rev members) name"

text \<open>
  \<^verbatim>\<open>value.name\<close> for a name that no built-in prototype defines (the SDK reads \<^verbatim>\<open>basePath\<close>,
  \<^verbatim>\<open>reqUrl\<close> and \<^verbatim>\<open>publicPath\<close>): reading a property of \<^verbatim>\<open>null\<close> throws, a primitive or an
  array has no such property (\<open>None\<close> is \<^verbatim>\<open>undefined\<close>).
\<close>

fun get_property :: "json \<Rightarrow> string \<Rightarrow> js_error + json option" where
  "get_property JNull name = Inl TypeError"
| "get_property (JObject members) name = Inr (object_get members name)"
| "get_property v name = Inr None"

subsection \<open>String helpers\<close>

text \<open>\<^verbatim>\<open>String.prototype.includes\<close>: a substring test.\<close>

fun str_includes :: "string \<Rightarrow> string \<Rightarrow> bool" where
  "str_includes [] sub = (sub = [])"
| "str_includes (c # cs) sub = (take (length sub) (c # cs) = sub \<or> str_includes cs sub)"

text \<open>\<^verbatim>\<open>Array.prototype.join\<close>.\<close>

fun join :: "string \<Rightarrow> string list \<Rightarrow> string" where
  "join sep [] = []"
| "join sep [x] = x"
| "join sep (x # y # rest) = x @ sep @ join sep (y # rest)"

text \<open>\<^verbatim>\<open>String.prototype.split\<close> on a single character.\<close>

fun split_on :: "char \<Rightarrow> string \<Rightarrow> string list" where
  "split_on d [] = [[]]"
| "split_on d (c # cs) =
     (if c = d then [] # split_on d cs
      else (case split_on d cs of p # ps \<Rightarrow> (c # p) # ps | [] \<Rightarrow> [[c]]))"

definition is_digit :: "char \<Rightarrow> bool" where
  "is_digit c = (48 \<le> (of_char c :: nat) \<and> (of_char c :: nat) \<le> 57)"

definition nat_of_digits :: "string \<Rightarrow> nat" where
  "nat_of_digits s = foldl (\<lambda>n c. 10 * n + ((of_char c :: nat) - 48)) 0 s"

definition to_lower :: "char \<Rightarrow> char" where
  "to_lower c =
     (let n = (of_char c :: nat) in if 65 \<le> n \<and> n \<le> 90 then char_of (n + 32) else c)"

subsection \<open>UTF-8 and UTF-16\<close>

text \<open>
  The UTF-8 decoder of the runtime, a machine over the bytes: the code point so far, the
  number of bytes still needed and the bounds of the next byte. A byte that cannot start
  or continue a sequence gives U+FFFD (65533), and a byte that breaks a sequence off is
  read again as the start of the next one. With \<open>surrogates\<close> the three-byte form of a
  surrogate is read as that surrogate (the form a string of the model may hold); without,
  it is ill-formed, as in UTF-8 proper.
\<close>

definition utf8_initial :: "nat \<times> nat \<times> nat \<times> nat" where
  "utf8_initial = (0, 0, 128, 191)"

definition utf8_lead :: "bool \<Rightarrow> nat \<Rightarrow> nat list \<times> (nat \<times> nat \<times> nat \<times> nat)" where
  "utf8_lead surrogates b =
     (if b < 128 then ([b], utf8_initial)
      else if 194 \<le> b \<and> b \<le> 223 then ([], (b mod 32, 1, 128, 191))
      else if 224 \<le> b \<and> b \<le> 239 then
        ([], (b mod 16, 2, (if b = 224 then 160 else 128),
              (if b = 237 \<and> \<not> surrogates then 159 else 191)))
      else if 240 \<le> b \<and> b \<le> 244 then
        ([], (b mod 8, 3, (if b = 240 then 144 else 128), (if b = 244 then 143 else 191)))
      else ([65533], utf8_initial))"

fun utf8_step ::
  "bool \<Rightarrow> nat \<times> nat \<times> nat \<times> nat \<Rightarrow> nat \<Rightarrow> nat list \<times> (nat \<times> nat \<times> nat \<times> nat)" where
  "utf8_step surrogates (cp, needed, lower, upper) b =
     (if needed = 0 then utf8_lead surrogates b
      else if lower \<le> b \<and> b \<le> upper then
        (if needed = 1 then ([cp * 64 + b mod 64], utf8_initial)
         else ([], (cp * 64 + b mod 64, needed - 1, 128, 191)))
      else (case utf8_lead surrogates b of (out, st) \<Rightarrow> (65533 # out, st)))"

fun utf8_run :: "bool \<Rightarrow> nat \<times> nat \<times> nat \<times> nat \<Rightarrow> string \<Rightarrow> nat list" where
  "utf8_run surrogates st [] = (if fst (snd st) = 0 then [] else [65533])"
| "utf8_run surrogates st (c # cs) =
     (case utf8_step surrogates st (of_char c) of
        (out, st') \<Rightarrow> out @ utf8_run surrogates st' cs)"

definition utf8_decode :: "bool \<Rightarrow> string \<Rightarrow> nat list" where
  "utf8_decode surrogates bytes = utf8_run surrogates utf8_initial bytes"

text \<open>The bytes of one code point.\<close>

definition utf8_bytes :: "nat \<Rightarrow> string" where
  "utf8_bytes n =
     (if n < 128 then [char_of n]
      else if n < 2048 then [char_of (192 + n div 64), char_of (128 + n mod 64)]
      else if n < 65536 then
        [char_of (224 + n div 4096), char_of (128 + (n div 64) mod 64), char_of (128 + n mod 64)]
      else
        [char_of (240 + n div 262144), char_of (128 + (n div 4096) mod 64),
         char_of (128 + (n div 64) mod 64), char_of (128 + n mod 64)])"

text \<open>The UTF-16 code units of a string, which is what the runtime holds.\<close>

definition utf16_units :: "nat \<Rightarrow> nat list" where
  "utf16_units cp =
     (if cp < 65536 then [cp]
      else [55296 + (cp - 65536) div 1024, 56320 + (cp - 65536) mod 1024])"

definition code_units :: "string \<Rightarrow> nat list" where
  "code_units s = concat (map utf16_units (utf8_decode True s))"

text \<open>
  \<^verbatim>\<open>buf.toString('utf-8')\<close>: the string the bytes decode to, with U+FFFD for every ill-formed
  part.
\<close>

definition toString_utf8 :: "string \<Rightarrow> string" where
  "toString_utf8 bytes = concat (map utf8_bytes (utf8_decode False bytes))"

text \<open>
  \<^verbatim>\<open>new Buffer(str)\<close>: the UTF-8 bytes of a string. A high surrogate followed by a low one is
  one code point, any other surrogate is written as U+FFFD.
\<close>

fun encode_units :: "nat list \<Rightarrow> string" where
  "encode_units (a # b # rest) =
     (if 55296 \<le> a \<and> a \<le> 56319 \<and> 56320 \<le> b \<and> b \<le> 57343
      then utf8_bytes (65536 + (a - 55296) * 1024 + (b - 56320)) @ encode_units rest
      else utf8_bytes (if 55296 \<le> a \<and> a \<le> 57343 then 65533 else a)
           @ encode_units (b # rest))"
| "encode_units [a] = utf8_bytes (if 55296 \<le> a \<and> a \<le> 57343 then 65533 else a)"
| "encode_units [] = []"

definition Buffer_from_string :: "string \<Rightarrow> string" where
  "Buffer_from_string s = encode_units (code_units s)"

subsection \<open>Base64\<close>

definition base64_alphabet :: string where
  "base64_alphabet = ''ABCDEFGHIJKLMNOPQRSTUVWXYZabcdefghijklmnopqrstuvwxyz0123456789+/''"

definition base64_char :: "nat \<Rightarrow> char" where
  "base64_char i = base64_alphabet ! i"

text \<open>\<^verbatim>\<open>buf.toString('base64')\<close>: the standard alphabet, padded with \<^verbatim>\<open>=\<close>.\<close>

fun base64_encode :: "string \<Rightarrow> string" where
  "base64_encode [] = []"
| "base64_encode [a] =
     (let x = (of_char a :: nat) in
      [base64_char (x div 4), base64_char ((x mod 4) * 16), CHR ''='', CHR ''=''])"
| "base64_encode [a, b] =
     (let x = (of_char a :: nat); y = (of_char b :: nat) in
      [base64_char (x div 4), base64_char ((x mod 4) * 16 + y div 16),
       base64_char ((y mod 16) * 4), CHR ''=''])"
| "base64_encode (a # b # c # rest) =
     (let x = (of_char a :: nat); y = (of_char b :: nat); z = (of_char c :: nat) in
      [base64_char (x div 4), base64_char ((x mod 4) * 16 + y div 16),
       base64_char ((y mod 16) * 4 + z div 64), base64_char (z mod 64)])
     @ base64_encode rest"

text \<open>
  \<^verbatim>\<open>Buffer.from(str, 'base64')\<close> never throws. The decoder of the runtime reads each code unit
  of the string by its low byte (so U+012B reads as \<^verbatim>\<open>+\<close>), in both the standard and the
  URL-safe alphabet; it skips a low byte outside the alphabet and stops at the first that
  is \<^verbatim>\<open>=\<close>. A final group of two or three characters gives one or two bytes, a single
  left-over character gives none.
\<close>

definition unbase64 :: "char \<Rightarrow> nat option" where
  "unbase64 c =
     (let n = (of_char c :: nat) in
      if 65 \<le> n \<and> n \<le> 90 then Some (n - 65)
      else if 97 \<le> n \<and> n \<le> 122 then Some (n - 71)
      else if 48 \<le> n \<and> n \<le> 57 then Some (n + 4)
      else if c = CHR ''+'' \<or> c = CHR ''-'' then Some 62
      else if c = CHR ''/'' \<or> c = CHR ''_'' then Some 63
      else None)"

fun decode_sextets :: "nat list \<Rightarrow> string" where
  "decode_sextets (a # b # c # d # rest) =
     [char_of (a * 4 + b div 16), char_of ((b mod 16) * 16 + c div 4),
      char_of ((c mod 4) * 64 + d)] @ decode_sextets rest"
| "decode_sextets [a, b, c] =
     [char_of (a * 4 + b div 16), char_of ((b mod 16) * 16 + c div 4)]"
| "decode_sextets [a, b] = [char_of (a * 4 + b div 16)]"
| "decode_sextets [a] = []"
| "decode_sextets [] = []"

definition base64_decode :: "string \<Rightarrow> string" where
  "base64_decode s =
     decode_sextets
       (List.map_filter unbase64
          (takeWhile (\<lambda>c. c \<noteq> CHR ''='') (map char_of (code_units s))))"

subsection \<open>JSON.parse\<close>

text \<open>
  \<^verbatim>\<open>JSON.parse\<close> is a built-in of the runtime. It is modelled in two passes over the text, both
  of them automata, so that parsing is total: a scanner from characters to tokens and a
  stack machine from tokens to a value. Any text outside the JSON grammar gives
  \<open>SyntaxError\<close>.
\<close>

datatype token =
    TLBrace | TRBrace | TLBracket | TRBracket | TColon | TComma
  | TValue json

datatype lex_mode =
    LIdle
  | LWord string
  | LStr string
  | LEsc string
  | LHex string "nat list"

definition is_ws :: "char \<Rightarrow> bool" where
  "is_ws c = (c = CHR '' '' \<or> c = CHR 0x09 \<or> c = CHR 0x0A \<or> c = CHR 0x0D)"

definition punctuation :: "char \<Rightarrow> token option" where
  "punctuation c =
     (if c = CHR ''{'' then Some TLBrace else if c = CHR ''}'' then Some TRBrace
      else if c = CHR ''['' then Some TLBracket else if c = CHR '']'' then Some TRBracket
      else if c = CHR '':'' then Some TColon else if c = CHR '','' then Some TComma
      else None)"

definition exponent_part :: "string \<Rightarrow> bool" where
  "exponent_part r =
     (case r of [] \<Rightarrow> True
      | c # r1 \<Rightarrow> (c = CHR ''e'' \<or> c = CHR ''E'') \<and>
          (let r2 = (if r1 \<noteq> [] \<and> (hd r1 = CHR ''+'' \<or> hd r1 = CHR ''-'') then tl r1 else r1)
           in r2 \<noteq> [] \<and> list_all is_digit r2))"

definition fraction_part :: "string \<Rightarrow> bool" where
  "fraction_part r =
     (if r \<noteq> [] \<and> hd r = CHR ''.''
      then takeWhile is_digit (tl r) \<noteq> [] \<and> exponent_part (dropWhile is_digit (tl r))
      else exponent_part r)"

text \<open>The number grammar: \<^verbatim>\<open>-?(0|[1-9][0-9]*)(\.[0-9]+)?([eE][+-]?[0-9]+)?\<close>.\<close>

definition json_number :: "string \<Rightarrow> bool" where
  "json_number w =
     (let s = (if w \<noteq> [] \<and> hd w = CHR ''-'' then tl w else w);
          ds = takeWhile is_digit s
      in (ds = ''0'' \<or> (ds \<noteq> [] \<and> hd ds \<noteq> CHR ''0'')) \<and> fraction_part (dropWhile is_digit s))"

definition word_token :: "string \<Rightarrow> token option" where
  "word_token w =
     (if w = ''true'' then Some (TValue (JBool True))
      else if w = ''false'' then Some (TValue (JBool False))
      else if w = ''null'' then Some (TValue JNull)
      else if json_number w then Some (TValue (JNumber w))
      else None)"

definition hex_value :: "char \<Rightarrow> nat option" where
  "hex_value c =
     (let n = (of_char c :: nat) in
      if 48 \<le> n \<and> n \<le> 57 then Some (n - 48)
      else if 65 \<le> n \<and> n \<le> 70 then Some (n - 55)
      else if 97 \<le> n \<and> n \<le> 102 then Some (n - 87)
      else None)"

text \<open>
  A \<^verbatim>\<open>\uXXXX\<close> escape adds one UTF-16 code unit. The text read so far is kept reversed; a
  low surrogate that directly follows a high surrogate completes one code point.
\<close>

definition push_code_unit :: "string \<Rightarrow> nat \<Rightarrow> string" where
  "push_code_unit acc cu =
     (case acc of
        b3 # b2 # b1 # rest \<Rightarrow>
          (if 56320 \<le> cu \<and> cu \<le> 57343 \<and> (of_char b1 :: nat) = 237 \<and>
              160 \<le> (of_char b2 :: nat) \<and> (of_char b2 :: nat) \<le> 175
           then rev (utf8_bytes (65536 + (((of_char b2 :: nat) mod 16) * 64
                  + (of_char b3 :: nat) mod 64) * 1024 + (cu - 56320))) @ rest
           else rev (utf8_bytes cu) @ acc)
      | _ \<Rightarrow> rev (utf8_bytes cu) @ acc)"

definition escape_char :: "char \<Rightarrow> char option" where
  "escape_char c =
     (if c = CHR 0x22 \<or> c = CHR 0x5C \<or> c = CHR ''/'' then Some c
      else if c = CHR ''b'' then Some (CHR 0x08)
      else if c = CHR ''f'' then Some (CHR 0x0C)
      else if c = CHR ''n'' then Some (CHR 0x0A)
      else if c = CHR ''r'' then Some (CHR 0x0D)
      else if c = CHR ''t'' then Some (CHR 0x09)
      else None)"

definition lex_idle :: "token list \<Rightarrow> char \<Rightarrow> (lex_mode \<times> token list) option" where
  "lex_idle toks c =
     (if is_ws c then Some (LIdle, toks)
      else if c = CHR 0x22 then Some (LStr [], toks)
      else (case punctuation c of
              Some t \<Rightarrow> Some (LIdle, t # toks)
            | None \<Rightarrow> Some (LWord [c], toks)))"

text \<open>The tokens are collected in reverse.\<close>

fun lex_step :: "lex_mode \<times> token list \<Rightarrow> char \<Rightarrow> (lex_mode \<times> token list) option" where
  "lex_step (LIdle, toks) c = lex_idle toks c"
| "lex_step (LWord w, toks) c =
     (if is_ws c \<or> c = CHR 0x22 \<or> punctuation c \<noteq> None
      then (case word_token (rev w) of
              None \<Rightarrow> None
            | Some t \<Rightarrow> lex_idle (t # toks) c)
      else Some (LWord (c # w), toks))"
| "lex_step (LStr acc, toks) c =
     (if c = CHR 0x22 then Some (LIdle, TValue (JString (rev acc)) # toks)
      else if c = CHR 0x5C then Some (LEsc acc, toks)
      else if (of_char c :: nat) < 32 then None
      else Some (LStr (c # acc), toks))"
| "lex_step (LEsc acc, toks) c =
     (if c = CHR ''u'' then Some (LHex acc [], toks)
      else (case escape_char c of
              None \<Rightarrow> None
            | Some e \<Rightarrow> Some (LStr (e # acc), toks)))"
| "lex_step (LHex acc ds, toks) c =
     (case hex_value c of
        None \<Rightarrow> None
      | Some d \<Rightarrow>
          (if length ds = 3
           then Some (LStr (push_code_unit acc (foldl (\<lambda>n x. 16 * n + x) 0 (ds @ [d]))), toks)
           else Some (LHex acc (ds @ [d]), toks)))"

fun lex_all :: "lex_mode \<times> token list \<Rightarrow> string \<Rightarrow> (lex_mode \<times> token list) option" where
  "lex_all st [] = Some st"
| "lex_all st (c # cs) = (case lex_step st c of None \<Rightarrow> None | Some st' \<Rightarrow> lex_all st' cs)"

definition tokenize :: "string \<Rightarrow> token list option" where
  "tokenize text =
     (case lex_all (LIdle, []) text of
        None \<Rightarrow> None
      | Some (LIdle, toks) \<Rightarrow> Some (rev toks)
      | Some (LWord w, toks) \<Rightarrow>
          (case word_token (rev w) of None \<Rightarrow> None | Some t \<Rightarrow> Some (rev (t # toks)))
      | Some (_, toks) \<Rightarrow> None)"

datatype frame =
    FArray "json list"
  | FObject "(string \<times> json) list"
  | FMember "(string \<times> json) list" string

datatype expect =
    EValue | EValueOrClose | EKeyOrClose | EKey | EColon | EAfter
  | EDone json

text \<open>A finished value goes into the innermost open array or object member.\<close>

fun complete :: "json \<Rightarrow> frame list \<Rightarrow> (expect \<times> frame list) option" where
  "complete v [] = Some (EDone v, [])"
| "complete v (FArray items # stack) = Some (EAfter, FArray (v # items) # stack)"
| "complete v (FMember members k # stack) = Some (EAfter, FObject ((k, v) # members) # stack)"
| "complete v (FObject members # stack) = None"

definition start_value :: "token \<Rightarrow> frame list \<Rightarrow> (expect \<times> frame list) option" where
  "start_value t stack =
     (case t of
        TValue v \<Rightarrow> complete v stack
      | TLBracket \<Rightarrow> Some (EValueOrClose, FArray [] # stack)
      | TLBrace \<Rightarrow> Some (EKeyOrClose, FObject [] # stack)
      | _ \<Rightarrow> None)"

definition start_member :: "token \<Rightarrow> frame list \<Rightarrow> (expect \<times> frame list) option" where
  "start_member t stack =
     (case (t, stack) of
        (TValue (JString k), FObject members # rest) \<Rightarrow> Some (EColon, FMember members k # rest)
      | _ \<Rightarrow> None)"

definition close_frame :: "token \<Rightarrow> frame list \<Rightarrow> (expect \<times> frame list) option" where
  "close_frame t stack =
     (case (t, stack) of
        (TRBracket, FArray items # rest) \<Rightarrow> complete (JArray (rev items)) rest
      | (TRBrace, FObject members # rest) \<Rightarrow> complete (JObject (rev members)) rest
      | _ \<Rightarrow> None)"

fun parse_step :: "expect \<times> frame list \<Rightarrow> token \<Rightarrow> (expect \<times> frame list) option" where
  "parse_step (EValue, stack) t = start_value t stack"
| "parse_step (EValueOrClose, stack) t =
     (if t = TRBracket then close_frame t stack else start_value t stack)"
| "parse_step (EKeyOrClose, stack) t =
     (if t = TRBrace then close_frame t stack else start_member t stack)"
| "parse_step (EKey, stack) t = start_member t stack"
| "parse_step (EColon, stack) t = (if t = TColon then Some (EValue, stack) else None)"
| "parse_step (EAfter, stack) t =
     (if t = TComma
      then (case stack of
              FArray items # rest \<Rightarrow> Some (EValue, stack)
            | FObject members # rest \<Rightarrow> Some (EKey, stack)
            | _ \<Rightarrow> None)
      else close_frame t stack)"
| "parse_step (EDone v, stack) t = None"

fun parse_all :: "expect \<times> frame list \<Rightarrow> token list \<Rightarrow> (expect \<times> frame list) option" where
  "parse_all st [] = Some st"
| "parse_all st (t # ts) = (case parse_step st t of None \<Rightarrow> None | Some st' \<Rightarrow> parse_all st' ts)"

definition JSON_parse :: "string \<Rightarrow> js_error + json" where
  "JSON_parse text =
     (case tokenize text of
        None \<Rightarrow> Inl SyntaxError
      | Some toks \<Rightarrow>
          (case parse_all (EValue, []) toks of
             Some (EDone v, []) \<Rightarrow> Inr v
           | _ \<Rightarrow> Inl SyntaxError))"

subsection \<open>Truthiness\<close>

text \<open>
  Whether the number a JSON literal denotes is zero. With \<open>m\<close> the digits of the literal
  and \<open>e\<close> its decimal exponent, the literal stands for \<open>m * 10 ^ e\<close>, and the double
  nearest to it is zero exactly when that is at most \<open>2 ^ -1075\<close>, half the least positive
  double.
\<close>

definition number_is_zero :: "string \<Rightarrow> bool" where
  "number_is_zero w =
     (let s = (if w \<noteq> [] \<and> hd w = CHR ''-'' then tl w else w);
          ip = takeWhile is_digit s;
          r1 = dropWhile is_digit s;
          dot = (r1 \<noteq> [] \<and> hd r1 = CHR ''.'');
          fp = (if dot then takeWhile is_digit (tl r1) else []);
          r2 = (if dot then dropWhile is_digit (tl r1) else r1);
          r3 = tl r2;
          neg = (r3 \<noteq> [] \<and> hd r3 = CHR ''-'');
          ex = nat_of_digits (if r3 \<noteq> [] \<and> (hd r3 = CHR ''+'' \<or> hd r3 = CHR ''-'') then tl r3 else r3);
          m = nat_of_digits (ip @ fp);
          e = (if neg then - int ex else int ex) - int (length fp)
      in m = 0 \<or> (e < 0 \<and> m * 2 ^ 1075 \<le> 10 ^ nat (- e)))"

text \<open>The condition \<^verbatim>\<open>v ? a : b\<close> on a value.\<close>

fun truthy_json :: "json \<Rightarrow> bool" where
  "truthy_json JNull = False"
| "truthy_json (JBool b) = b"
| "truthy_json (JNumber w) = (\<not> number_is_zero w)"
| "truthy_json (JString s) = (s \<noteq> [])"
| "truthy_json (JArray xs) = True"
| "truthy_json (JObject members) = True"

subsection \<open>path.relative\<close>

text \<open>
  \<^verbatim>\<open>path.relative(from, to)\<close> of the runtime (POSIX): both arguments must be strings; equal
  strings give the empty path; otherwise both are resolved against the working directory
  (an absolute path) into their segments, without empty segments and with \<^verbatim>\<open>.\<close> and \<^verbatim>\<open>..\<close>
  applied, and the result climbs out of what is left of \<open>from\<close> and descends into what is
  left of \<open>to\<close> after their common leading segments.
\<close>

fun normalize_segments :: "string list \<Rightarrow> string list \<Rightarrow> string list" where
  "normalize_segments acc [] = rev acc"
| "normalize_segments acc (s # ss) =
     (if s = [] \<or> s = ''.'' then normalize_segments acc ss
      else if s = ''..'' then normalize_segments (tl acc) ss
      else normalize_segments (s # acc) ss)"

definition path_resolve :: "string \<Rightarrow> string \<Rightarrow> string list" where
  "path_resolve cwd p =
     normalize_segments []
       ((if p \<noteq> [] \<and> hd p = CHR ''/'' then [] else split_on (CHR ''/'') cwd)
        @ split_on (CHR ''/'') p)"

fun strip_common :: "string list \<Rightarrow> string list \<Rightarrow> string list \<times> string list" where
  "strip_common (a # as) (b # bs) = (if a = b then strip_common as bs else (a # as, b # bs))"
| "strip_common as bs = (as, bs)"

definition path_relative :: "string \<Rightarrow> string \<Rightarrow> string \<Rightarrow> string" where
  "path_relative cwd from to =
     (if from = to then []
      else (let (up, down) = strip_common (path_resolve cwd from) (path_resolve cwd to)
            in join ''/'' (replicate (length up) ''..'' @ down)))"

text \<open>\<^verbatim>\<open>validateString\<close>, the argument check at the head of \<^verbatim>\<open>path.relative\<close>.\<close>

fun validateString :: "json option \<Rightarrow> js_error + string" where
  "validateString (Some (JString s)) = Inr s"
| "validateString v = Inl TypeError"

subsection \<open>url-join\<close>

text \<open>
  \<^verbatim>\<open>urljoin(pp, path)\<close> of the package url-join (4.x) on two strings runs its \<^verbatim>\<open>normalize\<close> on
  the array of the two. The regular expressions of \<^verbatim>\<open>normalize\<close> are written out as list
  functions, each named after what it matches.
\<close>

definition is_slash :: "char \<Rightarrow> bool" where
  "is_slash c = (c = CHR ''/'')"

definition strip_leading_slashes :: "string \<Rightarrow> string" where
  "strip_leading_slashes s = dropWhile is_slash s"

definition strip_trailing_slashes :: "string \<Rightarrow> string" where
  "strip_trailing_slashes s = rev (dropWhile is_slash (rev s))"

text \<open>\<^verbatim>\<open>component.replace(/[\/]+$/, '/')\<close>\<close>

definition collapse_trailing_slashes :: "string \<Rightarrow> string" where
  "collapse_trailing_slashes s =
     (if s \<noteq> [] \<and> last s = CHR ''/'' then strip_trailing_slashes s @ ''/'' else s)"

text \<open>The scheme matched by \<^verbatim>\<open>^[^/:]+:\<close>, when there is one.\<close>

definition scheme_of :: "string \<Rightarrow> string option" where
  "scheme_of s =
     (let name = takeWhile (\<lambda>c. c \<noteq> CHR ''/'' \<and> c \<noteq> CHR '':'') s;
          rest = dropWhile (\<lambda>c. c \<noteq> CHR ''/'' \<and> c \<noteq> CHR '':'') s
      in if name \<noteq> [] \<and> rest \<noteq> [] \<and> hd rest = CHR '':'' then Some name else None)"

text \<open>\<^verbatim>\<open>/^[^/:]+:\/*$/\<close>\<close>

definition plain_protocol :: "string \<Rightarrow> bool" where
  "plain_protocol s =
     (case scheme_of s of
        None \<Rightarrow> False
      | Some name \<Rightarrow> dropWhile is_slash (drop (length name + 1) s) = [])"

text \<open>\<^verbatim>\<open>s.replace(/^([^/:]+):\/*/, '$1' + slashes)\<close>\<close>

definition set_protocol_slashes :: "string \<Rightarrow> string \<Rightarrow> string" where
  "set_protocol_slashes slashes s =
     (case scheme_of s of
        None \<Rightarrow> s
      | Some name \<Rightarrow> name @ '':'' @ slashes @ dropWhile is_slash (drop (length name + 1) s))"

text \<open>The loop over the components; \<open>i\<close> is the index and \<open>n\<close> the length of the array.\<close>

fun components :: "nat \<Rightarrow> nat \<Rightarrow> string list \<Rightarrow> string list" where
  "components i n [] = []"
| "components i n (component # rest) =
     (if component = [] then components (Suc i) n rest
      else
        (let c1 = (if i > 0 then strip_leading_slashes component else component);
             c2 = (if i < n - 1 then strip_trailing_slashes c1 else collapse_trailing_slashes c1)
         in c2 # components (Suc i) n rest))"

text \<open>\<^verbatim>\<open>str.replace(/\/(\?|&|#[^!])/g, '$1')\<close>\<close>

fun remove_slash_before_params :: "string \<Rightarrow> string" where
  "remove_slash_before_params (a # b # c # rest) =
     (if a = CHR ''/'' \<and> (b = CHR ''?'' \<or> b = CHR ''&'') then b # remove_slash_before_params (c # rest)
      else if a = CHR ''/'' \<and> b = CHR ''#'' \<and> c \<noteq> CHR ''!'' then b # c # remove_slash_before_params rest
      else a # remove_slash_before_params (b # c # rest))"
| "remove_slash_before_params [a, b] =
     (if a = CHR ''/'' \<and> (b = CHR ''?'' \<or> b = CHR ''&'') then [b] else [a, b])"
| "remove_slash_before_params s = s"

text \<open>
  \<^verbatim>\<open>parts = str.split('?'); parts.shift() + (parts.length > 0 ? '?' : '') + parts.join('&')\<close>
\<close>

definition rejoin_params :: "string \<Rightarrow> string" where
  "rejoin_params str =
     (case split_on (CHR ''?'') str of
        [] \<Rightarrow> []
      | first # parts \<Rightarrow> first @ (if parts \<noteq> [] then ''?'' else []) @ join ''&'' parts)"

text \<open>
  The head of \<^verbatim>\<open>normalize\<close> on a non-empty array: a first part that is a plain protocol is
  combined with the second, and the slashes after the scheme of the first part are set to
  two, or to three for a \<^verbatim>\<open>file:///\<close> URL.
\<close>

definition protocol_slashes :: "string \<Rightarrow> string" where
  "protocol_slashes first =
     (if take 8 first = ''file:///'' then set_protocol_slashes ''///'' first
      else set_protocol_slashes ''//'' first)"

definition protocol_parts :: "string list \<Rightarrow> string list" where
  "protocol_parts strArray =
     (let strArray1 =
            (case strArray of
               first # second # rest \<Rightarrow>
                 if plain_protocol first then (first @ second) # rest else strArray
             | _ \<Rightarrow> strArray)
      in protocol_slashes (hd strArray1) # tl strArray1)"

definition normalize :: "string list \<Rightarrow> string" where
  "normalize strArray =
     (if strArray = [] then []
      else
        (let strArray2 = protocol_parts strArray;
             resultArray = components 0 (length strArray2) strArray2;
             str = join ''/'' resultArray
         in rejoin_params (remove_slash_before_params str)))"

definition urljoin :: "string \<Rightarrow> string \<Rightarrow> string" where
  "urljoin pp path = normalize [pp, path]"



section \<open>The SDK\<close>

subsection \<open>Requests, responses and the SDK object\<close>

text \<open>
  A parsed \<^verbatim>\<open>URL\<close>: its \<^verbatim>\<open>href\<close> and its \<^verbatim>\<open>searchParams\<close>, the decoded name-value pairs of the
  query in order.
\<close>

record URL =
  href :: string
  searchParams :: "(string \<times> string) list"

definition searchParams_has :: "URL \<Rightarrow> string \<Rightarrow> bool" where
  "searchParams_has u name = (name \<in> set (map fst (searchParams u)))"

text \<open>\<^verbatim>\<open>searchParams.get\<close>: the first value under the name, \<^verbatim>\<open>null\<close> (\<open>None\<close>) without one.\<close>

definition searchParams_get :: "URL \<Rightarrow> string \<Rightarrow> string option" where
  "searchParams_get u name = map_of (searchParams u) name"

text \<open>
  What the SDK takes from the process it runs in: the working directory, which
  \<^verbatim>\<open>path.relative\<close> resolves relative paths against, and the \<^verbatim>\<open>URL\<close> constructor, which either
  parses its input against a base or throws.
\<close>

record runtime =
  cwd :: string
  new_URL :: "string \<Rightarrow> string \<Rightarrow> js_error + URL"

text \<open>\<^verbatim>\<open>req.url\<close> and \<^verbatim>\<open>req.headers.host\<close> of an \<^verbatim>\<open>IncomingMessage\<close>.\<close>

record IncomingMessage =
  req_url :: string
  headers_host :: "string option"

text \<open>One call of \<^verbatim>\<open>log.warn\<close>: the message and, when given, the error passed after it.\<close>

datatype log_entry = Warn string "js_error option"

text \<open>
  The object's two fields. The logger is represented by the calls it has received, oldest
  first.
\<close>

record IlcSdk =
  log :: "log_entry list"
  defaultPublicPath :: string

text \<open>\<^verbatim>\<open>constructor({logger = console, publicPath = '/'})\<close>\<close>

definition new_IlcSdk :: "string option \<Rightarrow> IlcSdk" where
  "new_IlcSdk publicPath =
     \<lparr>log = [], defaultPublicPath = (case publicPath of None \<Rightarrow> ''/'' | Some p \<Rightarrow> p)\<rparr>"

definition warn :: "IlcSdk \<Rightarrow> string \<Rightarrow> js_error option \<Rightarrow> IlcSdk" where
  "warn sdk message err = sdk\<lparr>log := log sdk @ [Warn message err]\<rparr>"

text \<open>
  Modelled from the spec: the declarations of \<^verbatim>\<open>./types\<close> (\<^verbatim>\<open>RequestData\<close>, \<^verbatim>\<open>ResponseData\<close>,
  \<^verbatim>\<open>AppAssets\<close>) are not among the sources. \<open>RequestData\<close> holds the values its three accessors
  return; the optional members of the other two are options; \<open>dependencies\<close> lists the
  mapping's own entries in the order they were inserted.
\<close>

record RequestData =
  getCurrentReqUrl :: string
  getCurrentBasePath :: string
  getCurrentPathProps :: json

record AppAssets =
  spaBundle :: "string option"
  cssBundle :: "string option"
  dependencies :: "(string \<times> string) list option"

record ResponseData =
  pageTitle :: "string option"
  pageMetaTags :: "string option"
  appAssets :: "AppAssets option"

text \<open>
  The headers of a \<^verbatim>\<open>ServerResponse\<close>, taken before they are sent. \<^verbatim>\<open>setHeader\<close> throws
  (\<^verbatim>\<open>ERR_INVALID_CHAR\<close>, a \<^verbatim>\<open>TypeError\<close>) when the value has a code unit other than a tab,
  \<^verbatim>\<open>0x20\<close> to \<^verbatim>\<open>0x7e\<close> and \<^verbatim>\<open>0x80\<close> to \<^verbatim>\<open>0xff\<close>; otherwise it stores the value under the
  lower-cased name and replaces what was there. The three names the SDK sets are legal
  header names.
\<close>

type_synonym ServerResponse = "string \<rightharpoonup> string"

definition valid_header_value :: "string \<Rightarrow> bool" where
  "valid_header_value v =
     list_all (\<lambda>u. u = 9 \<or> (32 \<le> u \<and> u \<le> 126) \<or> (128 \<le> u \<and> u \<le> 255)) (code_units v)"

definition setHeader :: "ServerResponse \<Rightarrow> string \<Rightarrow> string \<Rightarrow> js_error + ServerResponse" where
  "setHeader res name v =
     (if valid_header_value v then Inr (res(map to_lower name \<mapsto> v)) else Inl TypeError)"

text \<open>The condition \<^verbatim>\<open>if (s)\<close> on an optional string: absent and empty strings are falsy.\<close>

definition truthy :: "string option \<Rightarrow> bool" where
  "truthy s = (case s of None \<Rightarrow> False | Some v \<Rightarrow> v \<noteq> [])"

subsection \<open>Decoding a request\<close>

text \<open>\<^verbatim>\<open>new URL(req.url!, `http://${req.headers.host}`)\<close>\<close>

definition parseUrl :: "runtime \<Rightarrow> IncomingMessage \<Rightarrow> js_error + URL" where
  "parseUrl rt req =
     new_URL rt (req_url req)
       (''http://'' @ (case headers_host req of None \<Rightarrow> ''undefined'' | Some h \<Rightarrow> h))"

text \<open>
  \<^verbatim>\<open>JSON.parse(Buffer.from(url.searchParams.get(name)!, 'base64').toString('utf-8'))\<close>;
  \<^verbatim>\<open>Buffer.from(null, 'base64')\<close> throws.
\<close>

definition decode_param :: "URL \<Rightarrow> string \<Rightarrow> js_error + json" where
  "decode_param url name =
     (case searchParams_get url name of
        None \<Rightarrow> Inl TypeError
      | Some v \<Rightarrow> JSON_parse (toString_utf8 (base64_decode v)))"

definition missing_routerProps_message :: "string \<Rightarrow> string" where
  \<open>missing_routerProps_message h =
     ''Missing "routerProps" for "'' @ h @ ''" request. Fallback to / & /''\<close>

record requested_urls =
  basePageUrl :: string
  requestUrl :: string

definition getRequestUrls ::
  "runtime \<Rightarrow> IlcSdk \<Rightarrow> URL \<Rightarrow> (js_error + requested_urls) \<times> IlcSdk" where
  "getRequestUrls rt sdk url =
     (let res = \<lparr>basePageUrl = ''/'', requestUrl = ''/''\<rparr> in
      if searchParams_has url ''routerProps'' then
        (case decode_param url ''routerProps'' of
           Inl e \<Rightarrow> (Inl e, sdk)
         | Inr routerProps \<Rightarrow>
             (case get_property routerProps ''basePath'' of
                Inl e \<Rightarrow> (Inl e, sdk)
              | Inr basePath \<Rightarrow>
                  (case get_property routerProps ''reqUrl'' of
                     Inl e \<Rightarrow> (Inl e, sdk)
                   | Inr reqUrl \<Rightarrow>
                       (case validateString basePath of
                          Inl e \<Rightarrow> (Inl e, sdk)
                        | Inr from \<Rightarrow>
                            (case validateString reqUrl of
                               Inl e \<Rightarrow> (Inl e, sdk)
                             | Inr to \<Rightarrow>
                                 (Inr (res\<lparr>basePageUrl := from,
                                           requestUrl := ''/'' @ path_relative (cwd rt) from to\<rparr>),
                                  sdk))))))
      else (Inr res, warn sdk (missing_routerProps_message (href url)) None))"

definition getPassedProps :: "IlcSdk \<Rightarrow> URL \<Rightarrow> json \<times> IlcSdk" where
  "getPassedProps sdk url =
     (if \<not> searchParams_has url ''appProps'' then (JObject [], sdk)
      else
        (case decode_param url ''appProps'' of
           Inr props \<Rightarrow> (props, sdk)
         | Inl e \<Rightarrow>
             (JObject [],
              warn sdk ''Error while parsing passed props. Falling back to empty object...''
                (Some e))))"

definition processRequest ::
  "runtime \<Rightarrow> IlcSdk \<Rightarrow> IncomingMessage \<Rightarrow> (js_error + RequestData) \<times> IlcSdk" where
  "processRequest rt sdk req =
     (case parseUrl rt req of
        Inl e \<Rightarrow> (Inl e, sdk)
      | Inr url \<Rightarrow>
          (case getRequestUrls rt sdk url of
             (Inl e, sdk1) \<Rightarrow> (Inl e, sdk1)
           | (Inr requestedUrls, sdk1) \<Rightarrow>
               (let (passedProps, sdk2) = getPassedProps sdk1 url in
                (Inr \<lparr>getCurrentReqUrl = requestUrl requestedUrls,
                      getCurrentBasePath = basePageUrl requestedUrls,
                      getCurrentPathProps = passedProps\<rparr>,
                 sdk2))))"

subsection \<open>Encoding a response\<close>

definition buildLink :: "IlcSdk \<Rightarrow> string \<Rightarrow> string option \<Rightarrow> string" where
  "buildLink sdk path publicPath =
     (if str_includes path ''http://'' \<or> str_includes path ''https://'' then path
      else
        (let pp = (if truthy publicPath then the publicPath else defaultPublicPath sdk)
         in urljoin pp path))"

text \<open>
  The keys a \<^verbatim>\<open>for...in\<close> loop visits on a plain object: the array indices (canonical
  decimal numerals below \<open>2^32 - 1\<close>) in ascending numeric order, then the other names in
  insertion order.
\<close>

definition is_array_index :: "string \<Rightarrow> bool" where
  "is_array_index k =
     (k \<noteq> [] \<and> list_all is_digit k \<and> (k = ''0'' \<or> hd k \<noteq> CHR ''0'') \<and>
      nat_of_digits k < 4294967295)"

definition for_in_keys :: "(string \<times> string) list \<Rightarrow> string list" where
  "for_in_keys obj =
     sort_key nat_of_digits (filter is_array_index (map fst obj))
     @ filter (\<lambda>k. \<not> is_array_index k) (map fst obj)"

text \<open>
  \<^verbatim>\<open>obj.hasOwnProperty(k)\<close>: the method is looked up on the object itself first, so an own
  entry named \<^verbatim>\<open>hasOwnProperty\<close> (a string, not a function) makes the call throw.
\<close>

definition call_hasOwnProperty :: "(string \<times> string) list \<Rightarrow> string \<Rightarrow> js_error + bool" where
  "call_hasOwnProperty obj k =
     (if ''hasOwnProperty'' \<in> set (map fst obj) then Inl TypeError
      else Inr (k \<in> set (map fst obj)))"

definition dependency_link :: "IlcSdk \<Rightarrow> string \<Rightarrow> string \<Rightarrow> string option \<Rightarrow> string" where
  \<open>dependency_link sdk k path publicPath =
     ''<'' @ buildLink sdk path publicPath @ ''>; rel="fragment-dependency"; name="'' @ k @ ''"''\<close>

text \<open>The \<^verbatim>\<open>for (let k in appAssets.dependencies)\<close> loop, pushing onto \<open>links\<close>.\<close>

fun dependency_links ::
  "IlcSdk \<Rightarrow> (string \<times> string) list \<Rightarrow> string option \<Rightarrow> string list \<Rightarrow> string list
   \<Rightarrow> js_error + string list" where
  "dependency_links sdk deps publicPath [] links = Inr links"
| "dependency_links sdk deps publicPath (k # ks) links =
     (case call_hasOwnProperty deps k of
        Inl e \<Rightarrow> Inl e
      | Inr own \<Rightarrow>
          (if \<not> own then dependency_links sdk deps publicPath ks links
           else
             (case map_of deps k of
                None \<Rightarrow> Inl TypeError
              | Some path \<Rightarrow>
                  dependency_links sdk deps publicPath ks
                    (links @ [dependency_link sdk k path publicPath]))))"

definition getLinkHeader :: "IlcSdk \<Rightarrow> AppAssets \<Rightarrow> string option \<Rightarrow> js_error + string" where
  \<open>getLinkHeader sdk assets publicPath =
     (let links = [];
          links1 =
            (if truthy (cssBundle assets)
             then links @ [''<'' @ buildLink sdk (the (cssBundle assets)) publicPath
                            @ ''>; rel="stylesheet"'']
             else links);
          links2 =
            (if truthy (spaBundle assets)
             then links1 @ [''<'' @ buildLink sdk (the (spaBundle assets)) publicPath
                             @ ''>; rel="fragment-script"; as="script"; crossorigin="anonymous"'']
             else links1);
          deps = (case dependencies assets of None \<Rightarrow> [] | Some d \<Rightarrow> d)
      in (case dependency_links sdk deps publicPath (for_in_keys deps) links2 of
            Inl e \<Rightarrow> Inl e
          | Inr links3 \<Rightarrow> Inr (join '','' links3)))\<close>

text \<open>
  \<^verbatim>\<open>this.getLinkHeader(data.appAssets, publicPath)\<close> with the value read from the path props,
  which the cast to \<^verbatim>\<open>any\<close> lets be any value. \<open>buildLink\<close> reads \<^verbatim>\<open>publicPath\<close> in two places:
  the test \<^verbatim>\<open>publicPath ? ...\<close>, and the call of url-join, which it reaches only for a path
  that contains neither \<^verbatim>\<open>http://\<close> nor \<^verbatim>\<open>https://\<close>.
\<close>

text \<open>
  Whether some call of \<open>buildLink\<close> reaches url-join: for a bundle that is set, or for a
  dependency (the loop gets to none when the call of \<^verbatim>\<open>hasOwnProperty\<close> throws).
\<close>

definition reaches_urljoin :: "AppAssets \<Rightarrow> bool" where
  "reaches_urljoin assets =
     (let deps = (case dependencies assets of None \<Rightarrow> [] | Some d \<Rightarrow> d);
          joined = (\<lambda>path. \<not> (str_includes path ''http://'' \<or> str_includes path ''https://''))
      in (truthy (cssBundle assets) \<and> joined (the (cssBundle assets)))
         \<or> (truthy (spaBundle assets) \<and> joined (the (spaBundle assets)))
         \<or> (''hasOwnProperty'' \<notin> set (map fst deps)
             \<and> list_ex (\<lambda>k. joined (the (map_of deps k))) (for_in_keys deps)))"

text \<open>
  A string is the declared case. A falsy value (\<^verbatim>\<open>null\<close>, \<^verbatim>\<open>false\<close>, a zero) acts as an
  absent one, and so does any value when no call reaches url-join. Otherwise url-join is
  called with a first argument that is not a string: on \<^verbatim>\<open>true\<close> or a number it throws a
  \<^verbatim>\<open>TypeError\<close>; an array or an object it takes for its own list of parts, which it reads
  and rewrites in place, and what \<open>getLinkHeader\<close> returns then is not derived here but
  taken as the parameter \<open>objectLinks\<close>.
\<close>

definition getLinkHeader_any ::
  "(json \<Rightarrow> AppAssets \<Rightarrow> js_error + string) \<Rightarrow> IlcSdk \<Rightarrow> AppAssets \<Rightarrow> json option
   \<Rightarrow> js_error + string" where
  "getLinkHeader_any objectLinks sdk assets publicPath =
     (case publicPath of
        None \<Rightarrow> getLinkHeader sdk assets None
      | Some (JString s) \<Rightarrow> getLinkHeader sdk assets (Some s)
      | Some v \<Rightarrow>
          (if truthy_json v \<and> reaches_urljoin assets
           then (case v of
                   JArray xs \<Rightarrow> objectLinks v assets
                 | JObject members \<Rightarrow> objectLinks v assets
                 | _ \<Rightarrow> Inl TypeError)
           else getLinkHeader sdk assets None))"

text \<open>
  The headers are set one after the other, so those set before a throw stay set: the
  result is the outcome together with the response.
\<close>

definition processResponse ::
  "(json \<Rightarrow> AppAssets \<Rightarrow> js_error + string) \<Rightarrow> IlcSdk \<Rightarrow> RequestData \<Rightarrow> ServerResponse
   \<Rightarrow> ResponseData \<Rightarrow> (js_error + unit) \<times> ServerResponse" where
  "processResponse objectLinks sdk reqData res data =
     (case (if truthy (pageTitle data)
            then setHeader res ''x-head-title''
                   (base64_encode
                      (Buffer_from_string (''<title>'' @ the (pageTitle data) @ ''</title>'')))
            else Inr res) of
        Inl e \<Rightarrow> (Inl e, res)
      | Inr res1 \<Rightarrow>
          (case (if truthy (pageMetaTags data)
                 then setHeader res1 ''x-head-meta''
                        (base64_encode (Buffer_from_string (the (pageMetaTags data))))
                 else Inr res1) of
             Inl e \<Rightarrow> (Inl e, res1)
           | Inr res2 \<Rightarrow>
               (case appAssets data of
                  None \<Rightarrow> (Inr (), res2)
                | Some assets \<Rightarrow>
                    (case get_property (getCurrentPathProps reqData) ''publicPath'' of
                       Inl e \<Rightarrow> (Inl e, res2)
                     | Inr publicPath \<Rightarrow>
                         (case getLinkHeader_any objectLinks sdk assets publicPath of
                            Inl e \<Rightarrow> (Inl e, res2)
                          | Inr link \<Rightarrow>
                              (case setHeader res2 ''Link'' link of
                                 Inl e \<Rightarrow> (Inl e, res2)
                               | Inr res3 \<Rightarrow> (Inr (), res3)))))))"

section \<open>Properties\<close>

subsection \<open>Helper facts\<close>

lemma has_of_get:
  "searchParams_get u name = Some v \<Longrightarrow> searchParams_has u name"
  unfolding searchParams_get_def searchParams_has_def
  by (auto dest: map_of_SomeD intro: rev_image_eqI)

lemma str_includes_unfold:
  "str_includes xs sub = (take (length sub) xs = sub \<or> (xs \<noteq> [] \<and> str_includes (tl xs) sub))"
  by (cases xs) auto

lemma str_includes_prefix: "str_includes (sub @ post) sub"
  by (subst str_includes_unfold) simp

lemma str_includes_infix: "str_includes (pre @ sub @ post) sub"
proof (induction pre)
  case Nil
  show ?case by (simp add: str_includes_prefix)
next
  case (Cons a pre)
  then show ?case by simp
qed

lemma parse_not_json: "JSON_parse (toString_utf8 (base64_decode ''bm90LWpzb24='')) = Inl SyntaxError"
  by code_simp

lemma encode_foo_bar:
  \<open>base64_encode ''{"basePath":"/foo","reqUrl":"/foo/bar"}''
     = ''eyJiYXNlUGF0aCI6Ii9mb28iLCJyZXFVcmwiOiIvZm9vL2JhciJ9''\<close>
  by code_simp

lemma parse_encoded_foo_bar:
  \<open>JSON_parse (toString_utf8 (base64_decode ''eyJiYXNlUGF0aCI6Ii9mb28iLCJyZXFVcmwiOiIvZm9vL2JhciJ9''))
     = Inr (JObject [(''basePath'', JString ''/foo''), (''reqUrl'', JString ''/foo/bar'')])\<close>
  by code_simp

lemma parse_foo_bar:
  \<open>JSON_parse (toString_utf8 (base64_decode (base64_encode ''{"basePath":"/foo","reqUrl":"/foo/bar"}'')))
     = Inr (JObject [(''basePath'', JString ''/foo''), (''reqUrl'', JString ''/foo/bar'')])\<close>
  by (simp only: encode_foo_bar parse_encoded_foo_bar)

lemma relative_foo_bar: "path_relative d ''/foo'' ''/foo/bar'' = ''bar''"
  by (simp add: path_relative_def path_resolve_def)

lemma getRequestUrls_missing:
  assumes "\<not> searchParams_has u ''routerProps''"
  shows "getRequestUrls rt sdk u
         = (Inr \<lparr>basePageUrl = ''/'', requestUrl = ''/''\<rparr>,
            warn sdk (missing_routerProps_message (href u)) None)"
  using assms by (simp add: getRequestUrls_def)

lemma getRequestUrls_parse_error:
  assumes "searchParams_get u ''routerProps'' = Some v"
    and "JSON_parse (toString_utf8 (base64_decode v)) = Inl e"
  shows "getRequestUrls rt sdk u = (Inl e, sdk)"
  using assms has_of_get[OF assms(1)] by (simp add: getRequestUrls_def decode_param_def)

lemma getRequestUrls_decoded:
  assumes "searchParams_get u ''routerProps'' = Some v"
    and "JSON_parse (toString_utf8 (base64_decode v)) = Inr (JObject members)"
    and "object_get members ''basePath'' = Some (JString from)"
    and "object_get members ''reqUrl'' = Some (JString to)"
  shows "getRequestUrls rt sdk u
         = (Inr \<lparr>basePageUrl = from, requestUrl = ''/'' @ path_relative (cwd rt) from to\<rparr>, sdk)"
  using assms has_of_get[OF assms(1)] by (simp add: getRequestUrls_def decode_param_def)

lemma processRequest_returns:
  assumes "parseUrl rt req = Inr u"
    and "getRequestUrls rt sdk u = (Inr r, sdk1)"
  shows "processRequest rt sdk req
         = (Inr \<lparr>getCurrentReqUrl = requestUrl r, getCurrentBasePath = basePageUrl r,
                 getCurrentPathProps = fst (getPassedProps sdk1 u)\<rparr>,
            snd (getPassedProps sdk1 u))"
  using assms by (simp add: processRequest_def split: prod.splits)

lemma processRequest_throws:
  assumes "parseUrl rt req = Inr u"
    and "getRequestUrls rt sdk u = (Inl e, sdk1)"
  shows "processRequest rt sdk req = (Inl e, sdk1)"
  using assms by (simp add: processRequest_def)

lemma getPassedProps_log:
  "snd (getPassedProps sdk u) = sdk \<or>
   (\<exists>e. snd (getPassedProps sdk u)
      = warn sdk ''Error while parsing passed props. Falling back to empty object...'' (Some e))"
  by (auto simp: getPassedProps_def split: sum.splits)


lemma for_in_keys_subset: "set (for_in_keys obj) \<subseteq> set (map fst obj)"
  by (auto simp: for_in_keys_def)

lemma dependency_links_closed:
  assumes "''hasOwnProperty'' \<notin> set (map fst deps)"
    and "set ks \<subseteq> set (map fst deps)"
  shows "dependency_links sdk deps publicPath ks links
         = Inr (links @ map (\<lambda>k. dependency_link sdk k (the (map_of deps k)) publicPath) ks)"
  using assms(2)
proof (induction ks arbitrary: links)
  case Nil
  show ?case by simp
next
  case (Cons k ks)
  from Cons.prems have k: "k \<in> set (map fst deps)" and ks: "set ks \<subseteq> set (map fst deps)"
    by auto
  from k obtain p where p: "map_of deps k = Some p"
    by (cases "map_of deps k") (auto simp: map_of_eq_None_iff)
  from assms(1) k have "call_hasOwnProperty deps k = Inr True"
    by (simp add: call_hasOwnProperty_def)
  with p Cons.IH[OF ks] show ?case by simp
qed






lemma parse_low_byte:
  \<open>JSON_parse (toString_utf8 (base64_decode
      (CHR 0xC5 # CHR 0xA5 # ''yJiYXNlUGF0aCI6Ii9mb28iLCJyZXFVcmwiOiIvZm9vL2JhciJ9'')))
     = Inr (JObject [(''basePath'', JString ''/foo''), (''reqUrl'', JString ''/foo/bar'')])\<close>
  by code_simp

lemma scenario_low_byte:
  \<open>processRequest
     \<lparr>cwd = ''/srv/app'',
      new_URL = (\<lambda>input base. Inr
        \<lparr>href = ''http://localhost/?routerProps=%C5%A5yJiYXNlUGF0aCI6Ii9mb28iLCJyZXFVcmwiOiIvZm9vL2JhciJ9'',
         searchParams =
           [(''routerProps'',
             CHR 0xC5 # CHR 0xA5 # ''yJiYXNlUGF0aCI6Ii9mb28iLCJyZXFVcmwiOiIvZm9vL2JhciJ9'')]\<rparr>)\<rparr>
     (new_IlcSdk None)
     \<lparr>req_url = ''/?routerProps=%C5%A5yJiYXNlUGF0aCI6Ii9mb28iLCJyZXFVcmwiOiIvZm9vL2JhciJ9'',
      headers_host = Some ''localhost''\<rparr>
   = (Inr \<lparr>getCurrentReqUrl = ''/bar'', getCurrentBasePath = ''/foo'',
           getCurrentPathProps = JObject []\<rparr>,
      new_IlcSdk None)\<close>
proof -
  let ?v = "CHR 0xC5 # CHR 0xA5 # ''yJiYXNlUGF0aCI6Ii9mb28iLCJyZXFVcmwiOiIvZm9vL2JhciJ9''"
  let ?u = "\<lparr>href = ''http://localhost/?routerProps=%C5%A5yJiYXNlUGF0aCI6Ii9mb28iLCJyZXFVcmwiOiIvZm9vL2JhciJ9'',
         searchParams = [(''routerProps'', ?v)]\<rparr>"
  let ?rt = "\<lparr>cwd = ''/srv/app'', new_URL = (\<lambda>input base. Inr ?u)\<rparr>"
  let ?req = "\<lparr>req_url = ''/?routerProps=%C5%A5yJiYXNlUGF0aCI6Ii9mb28iLCJyZXFVcmwiOiIvZm9vL2JhciJ9'',
      headers_host = Some ''localhost''\<rparr>"
  have h1: "parseUrl ?rt ?req = Inr ?u" by (simp add: parseUrl_def)
  have h2: "searchParams_get ?u ''routerProps'' = Some ?v"
    by (simp add: searchParams_get_def)
  have h3: "getPassedProps (new_IlcSdk None) ?u = (JObject [], new_IlcSdk None)"
    by (simp add: getPassedProps_def searchParams_has_def)
  have "getRequestUrls ?rt (new_IlcSdk None) ?u
        = (Inr \<lparr>basePageUrl = ''/foo'',
                requestUrl = ''/'' @ path_relative (cwd ?rt) ''/foo'' ''/foo/bar''\<rparr>,
           new_IlcSdk None)"
    by (rule getRequestUrls_decoded[OF h2 parse_low_byte]) (simp_all add: object_get_def)
  from processRequest_returns[OF h1 this] h3 show ?thesis
    by (simp add: relative_foo_bar)
qed

lemmas urljoin_eval =
  urljoin_def normalize_def protocol_parts_def protocol_slashes_def plain_protocol_def scheme_of_def set_protocol_slashes_def
  strip_leading_slashes_def strip_trailing_slashes_def collapse_trailing_slashes_def
  is_slash_def rejoin_params_def Let_def

lemmas for_in_eval = for_in_keys_def is_array_index_def is_digit_def nat_of_digits_def

lemma urljoin_main: "urljoin ''/'' ''main.js'' = ''/main.js''"
  by (simp add: urljoin_eval)

lemma urljoin_shared: "urljoin ''/'' ''shared.js'' = ''/shared.js''"
  by (simp add: urljoin_eval)

lemma scenario_link:
  \<open>getLinkHeader (new_IlcSdk None)
     \<lparr>spaBundle = Some ''main.js'', cssBundle = None,
      dependencies = Some [(''shared'', ''shared.js'')]\<rparr> None
   = Inr ''</main.js>; rel="fragment-script"; as="script"; crossorigin="anonymous",</shared.js>; rel="fragment-dependency"; name="shared"''\<close>
  by (simp add: getLinkHeader_def truthy_def for_in_eval call_hasOwnProperty_def
      dependency_link_def buildLink_def new_IlcSdk_def urljoin_main urljoin_shared)

































































subsection \<open>Decoding\<close>

text \<open>
  C1. The claim: \<open>processRequest\<close> never lets an exception reach its caller, also when
  \<^verbatim>\<open>routerProps\<close> is present but malformed. The code parses \<^verbatim>\<open>routerProps\<close> outside any
  \<^verbatim>\<open>try\<close>: for the request \<^verbatim>\<open>/?routerProps=bm90LWpzb24=\<close> (the base64 of \<^verbatim>\<open>not-json\<close>) the
  \<open>SyntaxError\<close> of \<^verbatim>\<open>JSON.parse\<close> is the outcome of \<open>processRequest\<close>, and nothing is logged.
\<close>

theorem processRequest_malformed_routerProps_throws:
  "processRequest
     \<lparr>cwd = ''/srv/app'',
      new_URL = (\<lambda>input base. Inr \<lparr>href = ''http://localhost/?routerProps=bm90LWpzb24='',
                                     searchParams = [(''routerProps'', ''bm90LWpzb24='')]\<rparr>)\<rparr>
     (new_IlcSdk None)
     \<lparr>req_url = ''/?routerProps=bm90LWpzb24='', headers_host = Some ''localhost''\<rparr>
   = (Inl SyntaxError, new_IlcSdk None)"
proof -
  let ?u = "\<lparr>href = ''http://localhost/?routerProps=bm90LWpzb24='',
             searchParams = [(''routerProps'', ''bm90LWpzb24='')]\<rparr>"
  have g: "searchParams_get ?u ''routerProps'' = Some ''bm90LWpzb24=''"
    by (simp add: searchParams_get_def)
  show ?thesis
    by (rule processRequest_throws[OF _ getRequestUrls_parse_error[OF g parse_not_json]])
       (simp add: parseUrl_def)
qed

text \<open>
  C2. When the query has no \<^verbatim>\<open>routerProps\<close>, \<open>getRequestUrls\<close> returns \<^verbatim>\<open>/\<close> for both the base
  path and the request URL and logs one warning, whose text is
  \<^verbatim>\<open>Missing "routerProps" for "\<close>, the \<^verbatim>\<open>href\<close> of the request, and
  \<^verbatim>\<open>" request. Fallback to / & /\<close>; \<open>processRequest\<close> then returns (it does not throw) with
  these two values, and whatever else it logs is at most the warning of \<open>getPassedProps\<close>,
  which carries an error and so is a different entry.
\<close>

theorem processRequest_missing_routerProps:
  assumes "parseUrl rt req = Inr u"
    and "\<not> searchParams_has u ''routerProps''"
  shows \<open>getRequestUrls rt sdk u
           = (Inr \<lparr>basePageUrl = ''/'', requestUrl = ''/''\<rparr>,
              sdk\<lparr>log := log sdk
                 @ [Warn (''Missing "routerProps" for "'' @ href u
                          @ ''" request. Fallback to / & /'') None]\<rparr>)
         \<and> (\<exists>props extra.
              processRequest rt sdk req
                = (Inr \<lparr>getCurrentReqUrl = ''/'', getCurrentBasePath = ''/'',
                        getCurrentPathProps = props\<rparr>,
                   sdk\<lparr>log := log sdk
                      @ Warn (''Missing "routerProps" for "'' @ href u
                              @ ''" request. Fallback to / & /'') None # extra\<rparr>)
              \<and> (extra = [] \<or>
                   (\<exists>e. extra = [Warn ''Error while parsing passed props. Falling back to empty object...''
                                   (Some e)])))\<close>
proof -
  let ?m = \<open>''Missing "routerProps" for "'' @ href u @ ''" request. Fallback to / & /''\<close>
  let ?w = "Warn ?m None"
  let ?sdk1 = "warn sdk ?m None"
  have g: "getRequestUrls rt sdk u = (Inr \<lparr>basePageUrl = ''/'', requestUrl = ''/''\<rparr>, ?sdk1)"
    using getRequestUrls_missing[OF assms(2), of rt sdk]
    by (simp add: missing_routerProps_message_def)
  have p: "processRequest rt sdk req
           = (Inr \<lparr>getCurrentReqUrl = ''/'', getCurrentBasePath = ''/'',
                   getCurrentPathProps = fst (getPassedProps ?sdk1 u)\<rparr>,
              snd (getPassedProps ?sdk1 u))"
    using processRequest_returns[OF assms(1) g] by simp
  from getPassedProps_log[of ?sdk1 u]
  have "\<exists>extra. snd (getPassedProps ?sdk1 u) = sdk\<lparr>log := log sdk @ ?w # extra\<rparr>
          \<and> (extra = [] \<or>
               (\<exists>e. extra = [Warn ''Error while parsing passed props. Falling back to empty object...''
                               (Some e)]))"
  proof
    assume "snd (getPassedProps ?sdk1 u) = ?sdk1"
    then show ?thesis by (intro exI[of _ "[]"]) (simp add: warn_def)
  next
    assume "\<exists>e. snd (getPassedProps ?sdk1 u)
      = warn ?sdk1 ''Error while parsing passed props. Falling back to empty object...'' (Some e)"
    then obtain e where "snd (getPassedProps ?sdk1 u)
      = warn ?sdk1 ''Error while parsing passed props. Falling back to empty object...'' (Some e)" ..
    then show ?thesis
      by (intro exI[of _ "[Warn ''Error while parsing passed props. Falling back to empty object...'' (Some e)]"])
         (simp add: warn_def)
  qed
  with p g show ?thesis by (auto simp: warn_def)
qed

theorem processRequest_missing_routerProps_witness:
  \<open>parseUrl
     \<lparr>cwd = ''/srv/app'',
      new_URL = (\<lambda>input base. Inr \<lparr>href = ''http://localhost/'', searchParams = []\<rparr>)\<rparr>
     \<lparr>req_url = ''/'', headers_host = Some ''localhost''\<rparr>
     = Inr \<lparr>href = ''http://localhost/'', searchParams = []\<rparr>
   \<and> \<not> searchParams_has \<lparr>href = ''http://localhost/'', searchParams = []\<rparr> ''routerProps''
   \<and> processRequest
        \<lparr>cwd = ''/srv/app'',
         new_URL = (\<lambda>input base. Inr \<lparr>href = ''http://localhost/'', searchParams = []\<rparr>)\<rparr>
        (new_IlcSdk None)
        \<lparr>req_url = ''/'', headers_host = Some ''localhost''\<rparr>
      = (Inr \<lparr>getCurrentReqUrl = ''/'', getCurrentBasePath = ''/'',
              getCurrentPathProps = JObject []\<rparr>,
         \<lparr>log = [Warn ''Missing "routerProps" for "http://localhost/" request. Fallback to / & /''
                    None],
          defaultPublicPath = ''/''\<rparr>)\<close>
proof -
  let ?u = "\<lparr>href = ''http://localhost/'', searchParams = []\<rparr>"
  let ?rt = "\<lparr>cwd = ''/srv/app'', new_URL = (\<lambda>input base. Inr ?u)\<rparr>"
  let ?req = "\<lparr>req_url = ''/'', headers_host = Some ''localhost''\<rparr>"
  have h1: "parseUrl ?rt ?req = Inr ?u" by (simp add: parseUrl_def)
  have h2: "\<not> searchParams_has ?u ''routerProps''" by (simp add: searchParams_has_def)
  have h3: "getPassedProps sdk ?u = (JObject [], sdk)" for sdk
    by (simp add: getPassedProps_def searchParams_has_def)
  from processRequest_missing_routerProps[OF h1 h2, of "new_IlcSdk None"]
  have \<open>getRequestUrls ?rt (new_IlcSdk None) ?u
        = (Inr \<lparr>basePageUrl = ''/'', requestUrl = ''/''\<rparr>,
           \<lparr>log = [Warn ''Missing "routerProps" for "http://localhost/" request. Fallback to / & /''
                      None],
            defaultPublicPath = ''/''\<rparr>)\<close>
    by (simp add: new_IlcSdk_def)
  from processRequest_returns[OF h1 this] h1 h2 show ?thesis
    by (simp add: h3)
qed

text \<open>
  C3. When \<^verbatim>\<open>routerProps\<close> is the base64 encoding of
  \<^verbatim>\<open>{"basePath":"/foo","reqUrl":"/foo/bar"}\<close>, \<open>processRequest\<close> returns with base path \<^verbatim>\<open>/foo\<close>
  and request URL \<^verbatim>\<open>/bar\<close>, in every working directory.
\<close>

theorem processRequest_foo_bar:
  assumes "parseUrl rt req = Inr u"
    and \<open>searchParams_get u ''routerProps''
          = Some (base64_encode ''{"basePath":"/foo","reqUrl":"/foo/bar"}'')\<close>
  shows "processRequest rt sdk req
         = (Inr \<lparr>getCurrentReqUrl = ''/bar'', getCurrentBasePath = ''/foo'',
                 getCurrentPathProps = fst (getPassedProps sdk u)\<rparr>,
            snd (getPassedProps sdk u))"
proof -
  have "getRequestUrls rt sdk u
        = (Inr \<lparr>basePageUrl = ''/foo'',
                requestUrl = ''/'' @ path_relative (cwd rt) ''/foo'' ''/foo/bar''\<rparr>, sdk)"
    by (rule getRequestUrls_decoded[OF assms(2) parse_foo_bar]) (simp_all add: object_get_def)
  from processRequest_returns[OF assms(1) this] show ?thesis
    by (simp add: relative_foo_bar)
qed

theorem processRequest_foo_bar_witness:
  \<open>processRequest
     \<lparr>cwd = ''/srv/app'',
      new_URL = (\<lambda>input base. Inr
        \<lparr>href = ''http://localhost/?routerProps=eyJiYXNlUGF0aCI6Ii9mb28iLCJyZXFVcmwiOiIvZm9vL2JhciJ9'',
         searchParams = [(''routerProps'', ''eyJiYXNlUGF0aCI6Ii9mb28iLCJyZXFVcmwiOiIvZm9vL2JhciJ9'')]\<rparr>)\<rparr>
     (new_IlcSdk None)
     \<lparr>req_url = ''/?routerProps=eyJiYXNlUGF0aCI6Ii9mb28iLCJyZXFVcmwiOiIvZm9vL2JhciJ9'',
      headers_host = Some ''localhost''\<rparr>
   = (Inr \<lparr>getCurrentReqUrl = ''/bar'', getCurrentBasePath = ''/foo'',
           getCurrentPathProps = JObject []\<rparr>,
      new_IlcSdk None)\<close>
proof -
  let ?u = "\<lparr>href = ''http://localhost/?routerProps=eyJiYXNlUGF0aCI6Ii9mb28iLCJyZXFVcmwiOiIvZm9vL2JhciJ9'',
         searchParams = [(''routerProps'', ''eyJiYXNlUGF0aCI6Ii9mb28iLCJyZXFVcmwiOiIvZm9vL2JhciJ9'')]\<rparr>"
  let ?rt = "\<lparr>cwd = ''/srv/app'', new_URL = (\<lambda>input base. Inr ?u)\<rparr>"
  let ?req = "\<lparr>req_url = ''/?routerProps=eyJiYXNlUGF0aCI6Ii9mb28iLCJyZXFVcmwiOiIvZm9vL2JhciJ9'',
      headers_host = Some ''localhost''\<rparr>"
  have h1: "parseUrl ?rt ?req = Inr ?u" by (simp add: parseUrl_def)
  have h2: \<open>searchParams_get ?u ''routerProps''
          = Some (base64_encode ''{"basePath":"/foo","reqUrl":"/foo/bar"}'')\<close>
    by (simp only: encode_foo_bar) (simp add: searchParams_get_def)
  have h3: "getPassedProps (new_IlcSdk None) ?u = (JObject [], new_IlcSdk None)"
    by (simp add: getPassedProps_def searchParams_has_def)
  from processRequest_foo_bar[OF h1 h2, of "new_IlcSdk None"] h3
  show ?thesis by simp
qed







text \<open>
  C6. Whenever \<open>processRequest\<close> returns, the request URL it returns begins with \<^verbatim>\<open>/\<close>: it
  is \<^verbatim>\<open>/\<close> when the query has no \<^verbatim>\<open>routerProps\<close>, and otherwise \<^verbatim>\<open>/\<close> followed by the relative
  path from \<^verbatim>\<open>basePath\<close> to \<^verbatim>\<open>reqUrl\<close>, both strings of the decoded object.
\<close>

theorem currentRequestUrl_starts_with_slash:
  assumes "processRequest rt sdk req = (Inr rd, sdk')"
  shows "(\<exists>rest. getCurrentReqUrl rd = CHR ''/'' # rest)
         \<and> (\<exists>u. parseUrl rt req = Inr u
              \<and> (if searchParams_has u ''routerProps''
                  then \<exists>members from to.
                         decode_param u ''routerProps'' = Inr (JObject members)
                         \<and> object_get members ''basePath'' = Some (JString from)
                         \<and> object_get members ''reqUrl'' = Some (JString to)
                         \<and> getCurrentReqUrl rd = ''/'' @ path_relative (cwd rt) from to
                  else getCurrentReqUrl rd = ''/''))"
proof -
  from assms obtain u where u: "parseUrl rt req = Inr u"
    by (auto simp: processRequest_def split: sum.splits)
  from assms u obtain r sdk1 where r: "getRequestUrls rt sdk u = (Inr r, sdk1)"
    by (cases "getRequestUrls rt sdk u") (auto simp: processRequest_def split: sum.splits)
  from processRequest_returns[OF u r] assms have rd: "getCurrentReqUrl rd = requestUrl r"
    by auto
  show ?thesis
  proof (cases "searchParams_has u ''routerProps''")
    case False
    from getRequestUrls_missing[OF False, of rt sdk] r have "requestUrl r = ''/''" by auto
    with rd u False show ?thesis by auto
  next
    case True
    with r obtain routerProps basePath reqUrl src dst where
      d: "decode_param u ''routerProps'' = Inr routerProps"
      and b: "get_property routerProps ''basePath'' = Inr basePath"
      and q: "get_property routerProps ''reqUrl'' = Inr reqUrl"
      and f: "validateString basePath = Inr src"
      and t: "validateString reqUrl = Inr dst"
      and res: "requestUrl r = ''/'' @ path_relative (cwd rt) src dst"
      by (auto simp: getRequestUrls_def split: sum.splits)
    from f have bp: "basePath = Some (JString src)"
      by (cases basePath rule: validateString.cases) auto
    from t have rq: "reqUrl = Some (JString dst)"
      by (cases reqUrl rule: validateString.cases) auto
    from b bp obtain members where m: "routerProps = JObject members"
      by (cases routerProps) auto
    from b q bp rq m have
      "object_get members ''basePath'' = Some (JString src)"
      "object_get members ''reqUrl'' = Some (JString dst)"
      by auto
    with rd res d m u True show ?thesis by auto
  qed
qed

theorem currentRequestUrl_starts_with_slash_witness:
  "processRequest
     \<lparr>cwd = ''/srv/app'',
      new_URL = (\<lambda>input base. Inr
        \<lparr>href = ''http://localhost/?routerProps=%C5%A5yJiYXNlUGF0aCI6Ii9mb28iLCJyZXFVcmwiOiIvZm9vL2JhciJ9'',
         searchParams =
           [(''routerProps'',
             CHR 0xC5 # CHR 0xA5 # ''yJiYXNlUGF0aCI6Ii9mb28iLCJyZXFVcmwiOiIvZm9vL2JhciJ9'')]\<rparr>)\<rparr>
     (new_IlcSdk None)
     \<lparr>req_url = ''/?routerProps=%C5%A5yJiYXNlUGF0aCI6Ii9mb28iLCJyZXFVcmwiOiIvZm9vL2JhciJ9'',
      headers_host = Some ''localhost''\<rparr>
   = (Inr \<lparr>getCurrentReqUrl = ''/bar'', getCurrentBasePath = ''/foo'',
           getCurrentPathProps = JObject []\<rparr>,
      new_IlcSdk None)
   \<and> (\<exists>rest. getCurrentReqUrl
                \<lparr>getCurrentReqUrl = ''/bar'', getCurrentBasePath = ''/foo'',
                 getCurrentPathProps = JObject []\<rparr>
              = CHR ''/'' # rest)"
  using currentRequestUrl_starts_with_slash[OF scenario_low_byte] scenario_low_byte by blast

subsection \<open>Encoding\<close>

text \<open>
  C7. For the response data \<^verbatim>\<open>{ pageTitle: "Hi" }\<close>, \<open>processResponse\<close> returns and changes
  exactly one header of the response: \<^verbatim>\<open>x-head-title\<close> becomes the base64 encoding of
  \<^verbatim>\<open><title>Hi</title>\<close>, that is \<^verbatim>\<open>PHRpdGxlPkhpPC90aXRsZT4=\<close>. The headers \<^verbatim>\<open>Link\<close> and
  \<^verbatim>\<open>x-head-meta\<close> (stored under their lower-cased names) are as they were.
\<close>

theorem processResponse_title_only:
  "processResponse objectLinks sdk reqData res
     \<lparr>pageTitle = Some ''Hi'', pageMetaTags = None, appAssets = None\<rparr>
     = (Inr (), res(''x-head-title'' \<mapsto> base64_encode ''<title>Hi</title>''))
   \<and> base64_encode ''<title>Hi</title>'' = ''PHRpdGxlPkhpPC90aXRsZT4=''
   \<and> snd (processResponse objectLinks sdk reqData res
             \<lparr>pageTitle = Some ''Hi'', pageMetaTags = None, appAssets = None\<rparr>) ''link''
       = res ''link''
   \<and> snd (processResponse objectLinks sdk reqData res
             \<lparr>pageTitle = Some ''Hi'', pageMetaTags = None, appAssets = None\<rparr>) ''x-head-meta''
       = res ''x-head-meta''"
proof -
  have b: "Buffer_from_string ''<title>Hi</title>'' = ''<title>Hi</title>''"
    by code_simp
  have e: "base64_encode ''<title>Hi</title>'' = ''PHRpdGxlPkhpPC90aXRsZT4=''"
    by code_simp
  have v: "valid_header_value ''PHRpdGxlPkhpPC90aXRsZT4=''"
    by code_simp
  have s: "setHeader res ''x-head-title'' ''PHRpdGxlPkhpPC90aXRsZT4=''
           = Inr (res(''x-head-title'' \<mapsto> ''PHRpdGxlPkhpPC90aXRsZT4=''))"
    by (simp add: setHeader_def v to_lower_def)
  have p: "processResponse objectLinks sdk reqData res
             \<lparr>pageTitle = Some ''Hi'', pageMetaTags = None, appAssets = None\<rparr>
           = (Inr (), res(''x-head-title'' \<mapsto> ''PHRpdGxlPkhpPC90aXRsZT4=''))"
    unfolding processResponse_def
    by (simp add: truthy_def b e s del: base64_encode.simps)
  show ?thesis
    by (simp only: p e) simp
qed

text \<open>
  C8. The claim: for every \<^verbatim>\<open>appAssets\<close>, \<open>getLinkHeader\<close> emits the \<^verbatim>\<open>cssBundle\<close> entry if
  present, then the \<^verbatim>\<open>spaBundle\<close> entry if present, then one entry per \<^verbatim>\<open>dependencies\<close> key in
  insertion order. Three inputs show where the code differs: a \<^verbatim>\<open>for...in\<close> loop visits the
  key \<^verbatim>\<open>1\<close> before the key \<^verbatim>\<open>b\<close> although \<^verbatim>\<open>b\<close> was inserted first; an empty \<^verbatim>\<open>cssBundle\<close> is
  present but falsy and gets no entry; a dependency named \<^verbatim>\<open>hasOwnProperty\<close> shadows the
  method the loop calls, which then throws.
\<close>

theorem getLinkHeader_order_counterexample:
  \<open>getLinkHeader (new_IlcSdk None)
     \<lparr>spaBundle = None, cssBundle = None,
      dependencies = Some [(''b'', ''b.js''), (''1'', ''one.js'')]\<rparr> None
   = Inr ''</one.js>; rel="fragment-dependency"; name="1",</b.js>; rel="fragment-dependency"; name="b"''
   \<and> getLinkHeader (new_IlcSdk None)
       \<lparr>spaBundle = None, cssBundle = Some '''', dependencies = None\<rparr> None
     = Inr ''''
   \<and> getLinkHeader (new_IlcSdk None)
       \<lparr>spaBundle = None, cssBundle = None,
        dependencies = Some [(''hasOwnProperty'', ''x.js'')]\<rparr> None
     = Inl TypeError\<close>
proof -
  have u1: "urljoin ''/'' ''one.js'' = ''/one.js''" by (simp add: urljoin_eval)
  have u2: "urljoin ''/'' ''b.js'' = ''/b.js''" by (simp add: urljoin_eval)
  have a: \<open>getLinkHeader (new_IlcSdk None)
     \<lparr>spaBundle = None, cssBundle = None,
      dependencies = Some [(''b'', ''b.js''), (''1'', ''one.js'')]\<rparr> None
   = Inr ''</one.js>; rel="fragment-dependency"; name="1",</b.js>; rel="fragment-dependency"; name="b"''\<close>
    by (simp add: getLinkHeader_def truthy_def for_in_eval call_hasOwnProperty_def
      dependency_link_def buildLink_def new_IlcSdk_def u1 u2)
  have b: "getLinkHeader (new_IlcSdk None)
       \<lparr>spaBundle = None, cssBundle = Some '''', dependencies = None\<rparr> None
     = Inr ''''"
    by (simp add: getLinkHeader_def truthy_def for_in_eval)
  have c: "getLinkHeader (new_IlcSdk None)
       \<lparr>spaBundle = None, cssBundle = None,
        dependencies = Some [(''hasOwnProperty'', ''x.js'')]\<rparr> None
     = Inl TypeError"
    by (simp add: getLinkHeader_def truthy_def for_in_eval call_hasOwnProperty_def)
  from a b c show ?thesis by blast
qed

text \<open>
  C8 as amended. When no dependency is named \<^verbatim>\<open>hasOwnProperty\<close>, the header is the
  comma-joined list of: the \<^verbatim>\<open>cssBundle\<close> entry if \<^verbatim>\<open>cssBundle\<close> is present and non-empty, the
  \<^verbatim>\<open>spaBundle\<close> entry if \<^verbatim>\<open>spaBundle\<close> is present and non-empty, and one
  \<^verbatim>\<open>fragment-dependency\<close> entry per key of \<^verbatim>\<open>dependencies\<close> in the order \<^verbatim>\<open>for...in\<close> visits them
  (array indices ascending, then the other names in insertion order). For the assets
  \<^verbatim>\<open>{ spaBundle: "main.js", dependencies: {"shared": "shared.js"} }\<close> and the default public
  path \<^verbatim>\<open>/\<close> it is exactly the header of the scenario.
\<close>

theorem getLinkHeader_entries:
  assumes "''hasOwnProperty''
           \<notin> set (map fst (case dependencies assets of None \<Rightarrow> [] | Some d \<Rightarrow> d))"
  shows \<open>getLinkHeader sdk assets publicPath
         = Inr (join '',''
             ((if truthy (cssBundle assets)
               then [''<'' @ buildLink sdk (the (cssBundle assets)) publicPath
                     @ ''>; rel="stylesheet"'']
               else [])
              @ (if truthy (spaBundle assets)
                 then [''<'' @ buildLink sdk (the (spaBundle assets)) publicPath
                       @ ''>; rel="fragment-script"; as="script"; crossorigin="anonymous"'']
                 else [])
              @ map (\<lambda>k. ''<''
                      @ buildLink sdk
                          (the (map_of (case dependencies assets of None \<Rightarrow> [] | Some d \<Rightarrow> d) k))
                          publicPath
                      @ ''>; rel="fragment-dependency"; name="'' @ k @ ''"'')
                  (for_in_keys (case dependencies assets of None \<Rightarrow> [] | Some d \<Rightarrow> d))))
         \<and> getLinkHeader (new_IlcSdk None)
             \<lparr>spaBundle = Some ''main.js'', cssBundle = None,
              dependencies = Some [(''shared'', ''shared.js'')]\<rparr> None
           = Inr ''</main.js>; rel="fragment-script"; as="script"; crossorigin="anonymous",</shared.js>; rel="fragment-dependency"; name="shared"''\<close>
proof -
  have g: \<open>getLinkHeader sdk assets publicPath
         = Inr (join '',''
             ((if truthy (cssBundle assets)
               then [''<'' @ buildLink sdk (the (cssBundle assets)) publicPath
                     @ ''>; rel="stylesheet"'']
               else [])
              @ (if truthy (spaBundle assets)
                 then [''<'' @ buildLink sdk (the (spaBundle assets)) publicPath
                       @ ''>; rel="fragment-script"; as="script"; crossorigin="anonymous"'']
                 else [])
              @ map (\<lambda>k. ''<''
                      @ buildLink sdk
                          (the (map_of (case dependencies assets of None \<Rightarrow> [] | Some d \<Rightarrow> d) k))
                          publicPath
                      @ ''>; rel="fragment-dependency"; name="'' @ k @ ''"'')
                  (for_in_keys (case dependencies assets of None \<Rightarrow> [] | Some d \<Rightarrow> d))))\<close>
    unfolding getLinkHeader_def Let_def
    by (simp add: dependency_links_closed[OF assms for_in_keys_subset] dependency_link_def
        del: join.simps)
  from g scenario_link show ?thesis by (rule conjI)
qed

theorem getLinkHeader_entries_witness:
  \<open>getLinkHeader (new_IlcSdk None)
     \<lparr>spaBundle = Some ''main.js'', cssBundle = Some ''main.css'',
      dependencies = Some [(''shared'', ''shared.js''), (''7'', ''https://cdn.example.com/seven.js'')]\<rparr>
     (Some ''/static/'')
   = Inr ''</static/main.css>; rel="stylesheet",</static/main.js>; rel="fragment-script"; as="script"; crossorigin="anonymous",<https://cdn.example.com/seven.js>; rel="fragment-dependency"; name="7",</static/shared.js>; rel="fragment-dependency"; name="shared"''\<close>
proof -
  let ?assets = "\<lparr>spaBundle = Some ''main.js'', cssBundle = Some ''main.css'',
      dependencies = Some [(''shared'', ''shared.js''), (''7'', ''https://cdn.example.com/seven.js'')]\<rparr>"
  have h: "''hasOwnProperty''
           \<notin> set (map fst (case dependencies ?assets of None \<Rightarrow> [] | Some d \<Rightarrow> d))"
    by simp
  have u1: "urljoin ''/static/'' ''main.css'' = ''/static/main.css''" by (simp add: urljoin_eval)
  have u2: "urljoin ''/static/'' ''main.js'' = ''/static/main.js''" by (simp add: urljoin_eval)
  have u3: "urljoin ''/static/'' ''shared.js'' = ''/static/shared.js''" by (simp add: urljoin_eval)
  have k: "for_in_keys [(''shared'', ''shared.js''), (''7'', ''https://cdn.example.com/seven.js'')]
           = [''7'', ''shared'']"
    by (simp add: for_in_eval)
  from getLinkHeader_entries[OF h, of "new_IlcSdk None" "Some ''/static/''"]
  show ?thesis
    by (simp add: truthy_def k buildLink_def u1 u2 u3)
qed




text \<open>
  C10. \<open>buildLink\<close> tests for a substring, not for a prefix: a path that has \<^verbatim>\<open>http://\<close> or
  \<^verbatim>\<open>https://\<close> anywhere in it, such as the relative path \<^verbatim>\<open>assets/http://x.js\<close>, is returned
  unchanged whatever the public path is.
\<close>

theorem buildLink_substring_test:
  "buildLink sdk (pre @ ''http://'' @ post) publicPath = pre @ ''http://'' @ post
   \<and> buildLink sdk (pre @ ''https://'' @ post) publicPath = pre @ ''https://'' @ post
   \<and> buildLink sdk ''assets/http://x.js'' publicPath = ''assets/http://x.js''"
proof -
  have a: "buildLink sdk (pre @ ''http://'' @ post) publicPath = pre @ ''http://'' @ post"
    unfolding buildLink_def using str_includes_infix[of pre "''http://''" post] by simp
  have b: "buildLink sdk (pre @ ''https://'' @ post) publicPath = pre @ ''https://'' @ post"
    unfolding buildLink_def using str_includes_infix[of pre "''https://''" post] by simp
  have c: "buildLink sdk ''assets/http://x.js'' publicPath = ''assets/http://x.js''"
    unfolding buildLink_def by simp
  from a b c show ?thesis by blast
qed

end
